theory Spec2Isabelle
  imports Main
begin

section \<open>JavaScript values, promises and collaborators\<close>

text \<open>
  The plugin proxy of \<^verbatim>\<open>src/src/session-stamp.js\<close> (the part that exports
  \<^verbatim>\<open>properties\<close>, \<^verbatim>\<open>methods\<close> and \<^verbatim>\<open>init\<close>) works on untyped JavaScript
  values: messages, replies, the handle id. They are modelled by one datatype. An object
  is the list of its own enumerable properties in property order; a number is an integer
  (no method computes with numbers).
\<close>

datatype jsval =
    JUndefined
  | JNull
  | JBool bool
  | JNum int
  | JStr string
  | JArr "jsval list"
  | JObj "(string \<times> jsval) list"

text \<open>
  What a method can fail with: a \<^verbatim>\<open>TypeError\<close> raised by the runtime (a property read
  on \<^verbatim>\<open>undefined\<close> or \<^verbatim>\<open>null\<close>), or the value the promise of
  \<^verbatim>\<open>Session.send\<close> was rejected with, passed on unchanged.
\<close>

datatype error = TypeError | Rejection jsval

text \<open>
  Every method of the source is \<^verbatim>\<open>async\<close>: it returns a promise and never throws to
  its caller. The model returns how that promise settles. \<open>Pending\<close> is a promise that
  never settles, which happens when the awaited promise of \<^verbatim>\<open>Session.send\<close> never does.
\<close>

datatype outcome = Resolved jsval | Rejected error | Pending

text \<open>
  A session and a logger are objects supplied by the caller; the model keeps their
  identity only. \<open>DefaultLogger\<close> is the object literal of four empty functions that
  \<^verbatim>\<open>init\<close> falls back to. A logger has the four documented hooks, and they return
  normally.
\<close>

datatype session = Session nat

datatype logger = DefaultLogger | InjectedLogger nat

text \<open>
  The effects a method has on its collaborators, in the order they happen: a call of the
  \<^verbatim>\<open>debug\<close> hook of a logger object, a message handed to \<^verbatim>\<open>send\<close> of a session, an
  event published through \<^verbatim>\<open>emit\<close>.
\<close>

datatype event =
    Debug logger string
  | SessionSend session jsval
  | Emit string

text \<open>
  \<^verbatim>\<open>session.js\<close> is not part of the source under study, so \<^verbatim>\<open>Session.send\<close> is a
  parameter of every method that reaches it: for a session and a message, how the promise
  it returns settles.
\<close>

type_synonym session_send = "session \<Rightarrow> jsval \<Rightarrow> outcome"

section \<open>The handle\<close>

text \<open>
  The fields of \<^verbatim>\<open>properties\<close>, and the two logger properties the methods read:
  \<^verbatim>\<open>this.logger\<close> (assigned by \<^verbatim>\<open>init\<close>) and \<^verbatim>\<open>this.log\<close> (assigned nowhere in
  the source). \<open>None\<close> is JavaScript's \<^verbatim>\<open>null\<close> for \<open>session\<close> and
  \<^verbatim>\<open>undefined\<close> for the two loggers.
\<close>

record handle =
  session :: "session option"
  id_prop :: jsval
  name :: string
  label :: string
  attached :: bool
  logger :: "logger option"
  log_prop :: "logger option"

definition properties :: handle where
  "properties =
     \<lparr> session = None, id_prop = JNull, name = ''unset'', label = ''unset'',
       attached = False, logger = None, log_prop = None \<rparr>"

text \<open>
  \<^verbatim>\<open>function init({logger = {...}} = {}) { this.logger = logger; }\<close>: the argument is
  the logger the caller supplies, \<open>None\<close> when it is left out.
\<close>

definition init :: "logger option \<Rightarrow> handle \<Rightarrow> handle" where
  "init lg this =
     this\<lparr>logger := Some (case lg of None \<Rightarrow> DefaultLogger | Some l \<Rightarrow> l)\<rparr>"

type_synonym result = "outcome \<times> handle \<times> event list"

abbreviation outcome_of :: "result \<Rightarrow> outcome" where
  "outcome_of r \<equiv> fst r"

abbreviation handle_of :: "result \<Rightarrow> handle" where
  "handle_of r \<equiv> fst (snd r)"

abbreviation trace_of :: "result \<Rightarrow> event list" where
  "trace_of r \<equiv> snd (snd r)"

section \<open>Runtime operations\<close>

text \<open>
  \<^verbatim>\<open>x.debug(m)\<close> where \<^verbatim>\<open>x\<close> is \<^verbatim>\<open>this.logger\<close> or \<^verbatim>\<open>this.log\<close>: a
  \<^verbatim>\<open>TypeError\<close> when \<^verbatim>\<open>x\<close> is undefined, else the call is recorded.
\<close>

definition call_debug :: "logger option \<Rightarrow> string \<Rightarrow> event list \<Rightarrow> error + event list" where
  "call_debug lg m tr =
     (case lg of None \<Rightarrow> Inl TypeError | Some l \<Rightarrow> Inr (tr @ [Debug l m]))"

text \<open>
  \<^verbatim>\<open>this.session.send(m)\<close>: a \<^verbatim>\<open>TypeError\<close> when the back-reference is \<^verbatim>\<open>null\<close>
  (nothing is sent), else the message is handed to that session.
\<close>

definition call_session_send ::
  "session_send \<Rightarrow> session option \<Rightarrow> jsval \<Rightarrow> event list \<Rightarrow> outcome \<times> event list" where
  "call_session_send net s m tr =
     (case s of
        None \<Rightarrow> (Rejected TypeError, tr)
      | Some x \<Rightarrow> (net x m, tr @ [SessionSend x m]))"

text \<open>
  \<^verbatim>\<open>this.emit(e)\<close> comes from the event-emitter mixin of an external package; it
  publishes the event and returns, subscribers or not.
\<close>

definition emit :: "string \<Rightarrow> event list \<Rightarrow> event list" where
  "emit e tr = tr @ [Emit e]"

text \<open>
  The property read \<^verbatim>\<open>v.k\<close>. It throws on \<^verbatim>\<open>undefined\<close> and \<^verbatim>\<open>null\<close>; on an
  object it yields the property or \<^verbatim>\<open>undefined\<close>. On the other values it yields
  \<^verbatim>\<open>undefined\<close>, which is what the runtime does for a key that is neither an index nor
  a built-in property; the methods read \<^verbatim>\<open>data\<close> and \<^verbatim>\<open>id\<close> only.
\<close>

fun get_prop :: "jsval \<Rightarrow> string \<Rightarrow> error + jsval" where
  "get_prop JUndefined k = Inl TypeError"
| "get_prop JNull k = Inl TypeError"
| "get_prop (JObj kvs) k = Inr (case map_of kvs k of None \<Rightarrow> JUndefined | Some v \<Rightarrow> v)"
| "get_prop v k = Inr JUndefined"

text \<open>
  The assignment \<^verbatim>\<open>o[k] = v\<close> on the property list of an object: an existing property
  keeps its place, a new one goes last.
\<close>

fun set_prop :: "string \<Rightarrow> jsval \<Rightarrow> (string \<times> jsval) list \<Rightarrow> (string \<times> jsval) list" where
  "set_prop k v [] = [(k, v)]"
| "set_prop k v ((k', v') # ps) =
     (if k' = k then (k, v) # ps else (k', v') # set_prop k v ps)"

fun string_of_nat :: "nat \<Rightarrow> string" where
  "string_of_nat n =
     (if n < 10 then [char_of (48 + n)]
      else string_of_nat (n div 10) @ [char_of (48 + n mod 10)])"

declare string_of_nat.simps [simp del]

text \<open>
  The own enumerable properties that the spread \<^verbatim>\<open>{...v}\<close> copies: those of an
  object, the indexed elements of an array, the indexed characters of a string, none for
  the other values.
\<close>

fun own_props :: "jsval \<Rightarrow> (string \<times> jsval) list" where
  "own_props (JObj kvs) = kvs"
| "own_props (JArr xs) = zip (map string_of_nat [0..<length xs]) xs"
| "own_props (JStr s) = zip (map string_of_nat [0..<length s]) (map (\<lambda>c. JStr [c]) s)"
| "own_props v = []"

text \<open>The condition of \<^verbatim>\<open>if (v)\<close>.\<close>

fun truthy :: "jsval \<Rightarrow> bool" where
  "truthy JUndefined = False"
| "truthy JNull = False"
| "truthy (JBool b) = b"
| "truthy (JNum n) = (n \<noteq> 0)"
| "truthy (JStr s) = (s \<noteq> [])"
| "truthy (JArr xs) = True"
| "truthy (JObj kvs) = True"

text \<open>The messages a trace hands to \<^verbatim>\<open>Session.send\<close>, oldest first.\<close>

fun session_sends :: "event list \<Rightarrow> (session \<times> jsval) list" where
  "session_sends [] = []"
| "session_sends (SessionSend s m # es) = (s, m) # session_sends es"
| "session_sends (e # es) = session_sends es"

section \<open>The methods\<close>

text \<open>
  Each method takes the handle it is called on (\<open>this\<close>) and the trace so far, and
  returns how its promise settles, the handle as the method leaves it, and the trace
  extended by the method's effects. The statements of the source are kept in their order,
  since a failure leaves the effects before it in place.
\<close>

text \<open>\<^verbatim>\<open>onAttached() { this.logger.debug('onAttached() abstract method called'); }\<close>\<close>

definition onAttached :: "handle \<Rightarrow> event list \<Rightarrow> error + event list" where
  "onAttached this tr = call_debug (logger this) ''onAttached() abstract method called'' tr"

text \<open>\<^verbatim>\<open>onDetached() { this.logger.debug('onDetached() abstract method called'); }\<close>\<close>

definition onDetached :: "handle \<Rightarrow> event list \<Rightarrow> error + event list" where
  "onDetached this tr = call_debug (logger this) ''onDetached() abstract method called'' tr"

text \<open>
  \<^verbatim>\<open>
  async attach(session) {
    this.logger.debug('attach()');
    this.session = session;
    const msg = { janus: 'attach', plugin: this.name };
    const response = await this.session.send(msg);
    this.id = response.data.id;
    this.attached = true;
    this.onAttached();
    this.emit('attached');
    return response;
  }
  \<close>
\<close>

definition attach :: "session_send \<Rightarrow> session option \<Rightarrow> handle \<Rightarrow> event list \<Rightarrow> result" where
  "attach net sess this tr =
     (case call_debug (logger this) ''attach()'' tr of
        Inl e \<Rightarrow> (Rejected e, this, tr)
      | Inr tr1 \<Rightarrow>
          (let this1 = this\<lparr>session := sess\<rparr>;
               msg = JObj [(''janus'', JStr ''attach''), (''plugin'', JStr (name this1))]
           in case call_session_send net (session this1) msg tr1 of
                (Rejected e, tr2) \<Rightarrow> (Rejected e, this1, tr2)
              | (Pending, tr2) \<Rightarrow> (Pending, this1, tr2)
              | (Resolved response, tr2) \<Rightarrow>
                  (case get_prop response ''data'' of
                     Inl e \<Rightarrow> (Rejected e, this1, tr2)
                   | Inr d \<Rightarrow>
                       (case get_prop d ''id'' of
                          Inl e \<Rightarrow> (Rejected e, this1, tr2)
                        | Inr i \<Rightarrow>
                            (let this2 = this1\<lparr>id_prop := i\<rparr>;
                                 this3 = this2\<lparr>attached := True\<rparr>
                             in case onAttached this3 tr2 of
                                  Inl e \<Rightarrow> (Rejected e, this3, tr2)
                                | Inr tr3 \<Rightarrow> (Resolved response, this3, emit ''attached'' tr3))))))"

text \<open>
  \<^verbatim>\<open>
  async send(obj) {
    this.logger.debug('send()');
    return this.session.send({ ...obj, handle_id: this.id });
  }
  \<close>
\<close>

definition send :: "session_send \<Rightarrow> jsval \<Rightarrow> handle \<Rightarrow> event list \<Rightarrow> result" where
  "send net obj this tr =
     (case call_debug (logger this) ''send()'' tr of
        Inl e \<Rightarrow> (Rejected e, this, tr)
      | Inr tr1 \<Rightarrow>
          (case call_session_send net (session this)
                  (JObj (set_prop ''handle_id'' (id_prop this) (own_props obj))) tr1 of
             (out, tr2) \<Rightarrow> (out, this, tr2)))"

text \<open>
  \<^verbatim>\<open>
  async detach() {
    this.logger.debug('detach()');
    await this.send({ janus: 'detach' });
    this.attached = false;
    this.onDetached();
    this.emit('detached');
  }
  \<close>
\<close>

definition detach :: "session_send \<Rightarrow> handle \<Rightarrow> event list \<Rightarrow> result" where
  "detach net this tr =
     (case call_debug (logger this) ''detach()'' tr of
        Inl e \<Rightarrow> (Rejected e, this, tr)
      | Inr tr1 \<Rightarrow>
          (case send net (JObj [(''janus'', JStr ''detach'')]) this tr1 of
             (Rejected e, this1, tr2) \<Rightarrow> (Rejected e, this1, tr2)
           | (Pending, this1, tr2) \<Rightarrow> (Pending, this1, tr2)
           | (Resolved r, this1, tr2) \<Rightarrow>
               (let this2 = this1\<lparr>attached := False\<rparr>
                in case onDetached this2 tr2 of
                     Inl e \<Rightarrow> (Rejected e, this2, tr2)
                   | Inr tr3 \<Rightarrow> (Resolved JUndefined, this2, emit ''detached'' tr3))))"

text \<open>
  \<^verbatim>\<open>
  async sendMessage(body = {}, jsep) {
    const msg = { janus: 'message', body };
    if (jsep) msg.jsep = jsep;
    this.log.debug('sendMessage()');
    return this.send(msg);
  }
  \<close>
  An argument left out is \<open>JUndefined\<close>; the default \<^verbatim>\<open>{}\<close> replaces an undefined
  \<open>body\<close> only.
\<close>

definition sendMessage :: "session_send \<Rightarrow> jsval \<Rightarrow> jsval \<Rightarrow> handle \<Rightarrow> event list \<Rightarrow> result" where
  "sendMessage net body jsep this tr =
     (let body1 = (if body = JUndefined then JObj [] else body);
          msg = [(''janus'', JStr ''message''), (''body'', body1)];
          msg1 = (if truthy jsep then set_prop ''jsep'' jsep msg else msg)
      in case call_debug (log_prop this) ''sendMessage()'' tr of
           Inl e \<Rightarrow> (Rejected e, this, tr)
         | Inr tr1 \<Rightarrow> send net (JObj msg1) this tr1)"

text \<open>
  \<^verbatim>\<open>
  async sendJsep(jsep) {
    this.log.debug('sendJsep()');
    return this.sendMessage({}, jsep);
  }
  \<close>
\<close>

definition sendJsep :: "session_send \<Rightarrow> jsval \<Rightarrow> handle \<Rightarrow> event list \<Rightarrow> result" where
  "sendJsep net jsep this tr =
     (case call_debug (log_prop this) ''sendJsep()'' tr of
        Inl e \<Rightarrow> (Rejected e, this, tr)
      | Inr tr1 \<Rightarrow> sendMessage net (JObj []) jsep this tr1)"

text \<open>
  \<^verbatim>\<open>
  async sendTrickle(candidate) {
    this.log.debug('sendTrickle()');
    return this.send({ janus: 'trickle', candidate });
  }
  \<close>
\<close>

definition sendTrickle :: "session_send \<Rightarrow> jsval \<Rightarrow> handle \<Rightarrow> event list \<Rightarrow> result" where
  "sendTrickle net candidate this tr =
     (case call_debug (log_prop this) ''sendTrickle()'' tr of
        Inl e \<Rightarrow> (Rejected e, this, tr)
      | Inr tr1 \<Rightarrow>
          send net (JObj [(''janus'', JStr ''trickle''), (''candidate'', candidate)]) this tr1)"

text \<open>
  \<^verbatim>\<open>
  async hangup() {
    this.log.debug('hangup()');
    return this.send({ janus: 'hangup' });
  }
  \<close>
\<close>

definition hangup :: "session_send \<Rightarrow> handle \<Rightarrow> event list \<Rightarrow> result" where
  "hangup net this tr =
     (case call_debug (log_prop this) ''hangup()'' tr of
        Inl e \<Rightarrow> (Rejected e, this, tr)
      | Inr tr1 \<Rightarrow> send net (JObj [(''janus'', JStr ''hangup'')]) this tr1)"

text \<open>
  \<^verbatim>\<open>
  async receive(msg) {
    this.log.debug(`Abstract method 'receive' called with message ${msg}`);
  }
  \<close>
  The callee \<^verbatim>\<open>this.log.debug\<close> is looked up before the argument is evaluated, so an
  undefined \<^verbatim>\<open>this.log\<close> throws first. The template literal then converts \<open>msg\<close> to
  a string; that conversion belongs to the runtime and can itself throw (an object whose
  own \<^verbatim>\<open>toString\<close> property is not callable), so it is the parameter \<open>to_string\<close>.
\<close>

definition receive_prefix :: string where
  "receive_prefix =
     ''Abstract method '' @ [CHR 0x27] @ ''receive'' @ [CHR 0x27] @ '' called with message ''"

definition receive :: "(jsval \<Rightarrow> error + string) \<Rightarrow> jsval \<Rightarrow> handle \<Rightarrow> event list \<Rightarrow> result" where
  "receive to_string msg this tr =
     (case log_prop this of
        None \<Rightarrow> (Rejected TypeError, this, tr)
      | Some l \<Rightarrow>
          (case to_string msg of
             Inl e \<Rightarrow> (Rejected e, this, tr)
           | Inr s \<Rightarrow> (Resolved JUndefined, this, tr @ [Debug l (receive_prefix @ s)])))"

section \<open>Example inputs\<close>

text \<open>
  Concrete collaborators and handles on which the theorems below are run: the reply
  \<^verbatim>\<open>{janus: 'success', data: {id: 42}}\<close>, a gateway that answers every request with
  it, a gateway that rejects every request with an error reply, and a session description.
\<close>

definition reply42 :: jsval where
  "reply42 = JObj [(''janus'', JStr ''success''), (''data'', JObj [(''id'', JNum 42)])]"

definition error_reply :: jsval where
  "error_reply = JObj [(''janus'', JStr ''error'')]"

definition gateway_ok :: session_send where
  "gateway_ok s m = Resolved reply42"

definition gateway_err :: session_send where
  "gateway_err s m = Rejected (Rejection error_reply)"

definition offer :: jsval where
  "offer = JObj [(''type'', JStr ''offer''), (''sdp'', JStr ''v=0'')]"

text \<open>A handle as the repository constructs it: \<^verbatim>\<open>properties\<close>, then \<^verbatim>\<open>init({})\<close>.\<close>

definition fresh_handle :: handle where
  "fresh_handle = init None properties"

text \<open>The same handle after a successful attach to session 1 that assigned the id 42.\<close>

definition attached_handle :: handle where
  "attached_handle =
     fresh_handle\<lparr>session := Some (Session 1), id_prop := JNum 42, attached := True\<rparr>"

text \<open>The fresh handle after an attach to session 1 that the gateway rejected.\<close>

definition failed_attach_handle :: handle where
  "failed_attach_handle = handle_of (attach gateway_err (Some (Session 1)) fresh_handle [])"

text \<open>
  An attached handle of a specialisation that, unlike \<^verbatim>\<open>init\<close>, also defines the
  \<^verbatim>\<open>log\<close> property.
\<close>

definition plugin_handle :: handle where
  "plugin_handle = attached_handle\<lparr>log_prop := Some (InjectedLogger 0)\<rparr>"

section \<open>Shared facts\<close>

lemma session_sends_append:
  "session_sends (xs @ ys) = session_sends xs @ session_sends ys"
  by (induction xs rule: session_sends.induct) simp_all

lemma map_of_set_prop: "map_of (set_prop k v kvs) = (map_of kvs)(k \<mapsto> v)"
  by (induction kvs) (auto simp: fun_eq_iff)

lemma attach_resolved:
  assumes "logger this = Some lg"
    and "net s (JObj [(''janus'', JStr ''attach''), (''plugin'', JStr (name this))]) = Resolved r"
    and "get_prop r ''data'' = Inr d"
    and "get_prop d ''id'' = Inr n"
  shows "attach net (Some s) this tr =
           (Resolved r,
            this\<lparr>session := Some s, id_prop := n, attached := True\<rparr>,
            tr @ [Debug lg ''attach()'',
                  SessionSend s (JObj [(''janus'', JStr ''attach''), (''plugin'', JStr (name this))]),
                  Debug lg ''onAttached() abstract method called'',
                  Emit ''attached''])"
  using assms
  by (simp add: attach_def call_debug_def call_session_send_def onAttached_def emit_def)

lemma attach_rejected:
  assumes "logger this = Some lg"
    and "net s (JObj [(''janus'', JStr ''attach''), (''plugin'', JStr (name this))]) = Rejected e"
  shows "attach net (Some s) this tr =
           (Rejected e, this\<lparr>session := Some s\<rparr>,
            tr @ [Debug lg ''attach()'',
                  SessionSend s (JObj [(''janus'', JStr ''attach''), (''plugin'', JStr (name this))])])"
  using assms
  by (simp add: attach_def call_debug_def call_session_send_def)

lemma send_passes:
  assumes "logger this = Some lg" and "session this = Some s"
  shows "send net obj this tr =
           (net s (JObj (set_prop ''handle_id'' (id_prop this) (own_props obj))), this,
            tr @ [Debug lg ''send()'',
                  SessionSend s (JObj (set_prop ''handle_id'' (id_prop this) (own_props obj)))])"
  using assms
  by (simp add: send_def call_debug_def call_session_send_def)

lemma send_without_session:
  assumes "session this = None"
  shows "outcome_of (send net obj this tr) = Rejected TypeError"
    and "handle_of (send net obj this tr) = this"
    and "session_sends (trace_of (send net obj this tr)) = session_sends tr"
  using assms
  by (simp_all add: send_def call_debug_def call_session_send_def session_sends_append
      split: option.splits)

lemma detach_resolved:
  assumes "logger this = Some lg" and "session this = Some s"
    and "net s (JObj [(''janus'', JStr ''detach''), (''handle_id'', id_prop this)]) = Resolved r"
  shows "detach net this tr =
           (Resolved JUndefined, this\<lparr>attached := False\<rparr>,
            tr @ [Debug lg ''detach()'', Debug lg ''send()'',
                  SessionSend s (JObj [(''janus'', JStr ''detach''), (''handle_id'', id_prop this)]),
                  Debug lg ''onDetached() abstract method called'',
                  Emit ''detached''])"
  using assms
  by (simp add: detach_def send_passes [where lg = lg and s = s] call_debug_def onDetached_def emit_def)

lemma fresh_handle_fields:
  "session fresh_handle = None" "id_prop fresh_handle = JNull" "name fresh_handle = ''unset''"
  "label fresh_handle = ''unset''" "attached fresh_handle = False"
  "logger fresh_handle = Some DefaultLogger" "log_prop fresh_handle = None"
  by (simp_all add: fresh_handle_def init_def properties_def)

lemma attached_handle_fields:
  "session attached_handle = Some (Session 1)" "id_prop attached_handle = JNum 42"
  "name attached_handle = ''unset''" "label attached_handle = ''unset''"
  "attached attached_handle = True" "logger attached_handle = Some DefaultLogger"
  "log_prop attached_handle = None"
  by (simp_all add: attached_handle_def fresh_handle_fields)

lemma plugin_handle_fields:
  "session plugin_handle = Some (Session 1)" "id_prop plugin_handle = JNum 42"
  "name plugin_handle = ''unset''" "label plugin_handle = ''unset''"
  "attached plugin_handle = True" "logger plugin_handle = Some DefaultLogger"
  "log_prop plugin_handle = Some (InjectedLogger 0)"
  by (simp_all add: plugin_handle_def attached_handle_fields)

lemma failed_attach_handle_eq:
  "failed_attach_handle = fresh_handle\<lparr>session := Some (Session 1)\<rparr>"
  by (simp add: failed_attach_handle_def gateway_err_def
      attach_rejected [where lg = DefaultLogger and e = "Rejection error_reply"] fresh_handle_fields)

lemma sendMessage_passes:
  assumes "log_prop this = Some l" and "logger this = Some lg" and "session this = Some s"
  shows "sendMessage net body jsep this tr =
           (net s (JObj ([(''janus'', JStr ''message''),
                          (''body'', if body = JUndefined then JObj [] else body)]
                         @ (if truthy jsep then [(''jsep'', jsep)] else [])
                         @ [(''handle_id'', id_prop this)])),
            this,
            tr @ [Debug l ''sendMessage()'', Debug lg ''send()'',
                  SessionSend s
                    (JObj ([(''janus'', JStr ''message''),
                            (''body'', if body = JUndefined then JObj [] else body)]
                           @ (if truthy jsep then [(''jsep'', jsep)] else [])
                           @ [(''handle_id'', id_prop this)]))])"
  using assms
  by (simp add: sendMessage_def call_debug_def send_passes [where lg = lg and s = s])

lemma sendMessage_without_log:
  assumes "log_prop this = None"
  shows "sendMessage net body jsep this tr = (Rejected TypeError, this, tr)"
  using assms by (simp add: sendMessage_def call_debug_def Let_def)

lemma sendJsep_without_log:
  assumes "log_prop this = None"
  shows "sendJsep net jsep this tr = (Rejected TypeError, this, tr)"
  using assms by (simp add: sendJsep_def call_debug_def)

lemma sendJsep_with_log:
  assumes "log_prop this = Some l"
  shows "sendJsep net jsep this tr =
           sendMessage net (JObj []) jsep this (tr @ [Debug l ''sendJsep()''])"
  using assms by (simp add: sendJsep_def call_debug_def)

text \<open>The trace a method starts from does not influence what it does.\<close>

lemma send_trace_prefix:
  "send net obj this tr =
     (outcome_of (send net obj this []), handle_of (send net obj this []),
      tr @ trace_of (send net obj this []))"
  by (simp add: send_def call_debug_def call_session_send_def split: option.splits)

lemma sendMessage_trace_prefix:
  "sendMessage net body jsep this tr =
     (outcome_of (sendMessage net body jsep this []), handle_of (sendMessage net body jsep this []),
      tr @ trace_of (sendMessage net body jsep this []))"
  by (cases "log_prop this")
    (simp_all add: sendMessage_def call_debug_def Let_def
      send_trace_prefix [where tr = "tr @ _"] send_trace_prefix [where tr = "[_]"])

lemma sendTrickle_passes:
  assumes "log_prop this = Some l" and "logger this = Some lg" and "session this = Some s"
  shows "sendTrickle net candidate this tr =
           (net s (JObj [(''janus'', JStr ''trickle''), (''candidate'', candidate),
                         (''handle_id'', id_prop this)]),
            this,
            tr @ [Debug l ''sendTrickle()'', Debug lg ''send()'',
                  SessionSend s (JObj [(''janus'', JStr ''trickle''), (''candidate'', candidate),
                                       (''handle_id'', id_prop this)])])"
  using assms
  by (simp add: sendTrickle_def call_debug_def send_passes [where lg = lg and s = s])

lemma hangup_passes:
  assumes "log_prop this = Some l" and "logger this = Some lg" and "session this = Some s"
  shows "hangup net this tr =
           (net s (JObj [(''janus'', JStr ''hangup''), (''handle_id'', id_prop this)]),
            this,
            tr @ [Debug l ''hangup()'', Debug lg ''send()'',
                  SessionSend s (JObj [(''janus'', JStr ''hangup''), (''handle_id'', id_prop this)])])"
  using assms
  by (simp add: hangup_def call_debug_def send_passes [where lg = lg and s = s])

lemma helpers_without_session:
  assumes "session this = None"
  shows "outcome_of (sendMessage net body jsep this tr) = Rejected TypeError"
    and "session_sends (trace_of (sendMessage net body jsep this tr)) = session_sends tr"
    and "outcome_of (sendJsep net jsep this tr) = Rejected TypeError"
    and "session_sends (trace_of (sendJsep net jsep this tr)) = session_sends tr"
    and "outcome_of (sendTrickle net candidate this tr) = Rejected TypeError"
    and "session_sends (trace_of (sendTrickle net candidate this tr)) = session_sends tr"
    and "outcome_of (hangup net this tr) = Rejected TypeError"
    and "session_sends (trace_of (hangup net this tr)) = session_sends tr"
  using assms
  by (simp_all add: sendMessage_def sendJsep_def sendTrickle_def hangup_def Let_def call_debug_def
      send_without_session session_sends_append split: option.splits)

text \<open>No method reads the \<open>attached\<close> field.\<close>

lemma attached_irrelevant:
  "outcome_of (attach net sess (this\<lparr>attached := b\<rparr>) tr) = outcome_of (attach net sess this tr)"
  "trace_of (attach net sess (this\<lparr>attached := b\<rparr>) tr) = trace_of (attach net sess this tr)"
  "outcome_of (send net obj (this\<lparr>attached := b\<rparr>) tr) = outcome_of (send net obj this tr)"
  "trace_of (send net obj (this\<lparr>attached := b\<rparr>) tr) = trace_of (send net obj this tr)"
  "outcome_of (sendMessage net body jsep (this\<lparr>attached := b\<rparr>) tr) =
     outcome_of (sendMessage net body jsep this tr)"
  "trace_of (sendMessage net body jsep (this\<lparr>attached := b\<rparr>) tr) =
     trace_of (sendMessage net body jsep this tr)"
  "outcome_of (sendJsep net jsep (this\<lparr>attached := b\<rparr>) tr) =
     outcome_of (sendJsep net jsep this tr)"
  "trace_of (sendJsep net jsep (this\<lparr>attached := b\<rparr>) tr) =
     trace_of (sendJsep net jsep this tr)"
  "outcome_of (sendTrickle net candidate (this\<lparr>attached := b\<rparr>) tr) =
     outcome_of (sendTrickle net candidate this tr)"
  "trace_of (sendTrickle net candidate (this\<lparr>attached := b\<rparr>) tr) =
     trace_of (sendTrickle net candidate this tr)"
  "outcome_of (hangup net (this\<lparr>attached := b\<rparr>) tr) = outcome_of (hangup net this tr)"
  "trace_of (hangup net (this\<lparr>attached := b\<rparr>) tr) = trace_of (hangup net this tr)"
  by (simp_all add: attach_def send_def sendMessage_def sendJsep_def sendTrickle_def hangup_def
      onAttached_def call_debug_def call_session_send_def Let_def
      split: option.splits sum.splits outcome.splits prod.splits)

section \<open>Attaching\<close>

text \<open>
  C1. For a fresh handle (\<open>attached\<close> false, \<open>id\<close> null), when \<^verbatim>\<open>Session.send\<close>
  resolves the attach request with a reply \<open>r\<close> whose \<^verbatim>\<open>data.id\<close> is \<open>n\<close>,
  \<^verbatim>\<open>attach(session)\<close> resolves with \<open>r\<close>, leaves \<open>attached\<close> true and \<open>id\<close> equal
  to \<open>n\<close>, calls \<^verbatim>\<open>onAttached\<close> (seen by its debug line) and emits \<^verbatim>\<open>'attached'\<close>
  exactly once.
\<close>

theorem attach_success:
  assumes "attached this = False" and "id_prop this = JNull" and "logger this = Some lg"
    and "net s (JObj [(''janus'', JStr ''attach''), (''plugin'', JStr (name this))]) = Resolved r"
    and "get_prop r ''data'' = Inr d" and "get_prop d ''id'' = Inr n"
  shows "(let res = attach net (Some s) this tr in
           outcome_of res = Resolved r
         \<and> attached (handle_of res) = True
         \<and> id_prop (handle_of res) = n
         \<and> trace_of res =
             tr @ [Debug lg ''attach()'',
                   SessionSend s (JObj [(''janus'', JStr ''attach''), (''plugin'', JStr (name this))]),
                   Debug lg ''onAttached() abstract method called'',
                   Emit ''attached'']
         \<and> count_list (trace_of res) (Emit ''attached'') = count_list tr (Emit ''attached'') + 1)"
  using assms
  by (simp add: attach_resolved [where lg = lg and net = net and s = s and d = d])

theorem attach_success_witness:
  "(let res = attach gateway_ok (Some (Session 1)) fresh_handle [] in
      outcome_of res = Resolved reply42
    \<and> attached (handle_of res) = True
    \<and> id_prop (handle_of res) = JNum 42
    \<and> trace_of res =
        [Debug DefaultLogger ''attach()'',
         SessionSend (Session 1) (JObj [(''janus'', JStr ''attach''), (''plugin'', JStr ''unset'')]),
         Debug DefaultLogger ''onAttached() abstract method called'',
         Emit ''attached'']
    \<and> count_list (trace_of res) (Emit ''attached'') = 1)"
  using attach_success [of fresh_handle DefaultLogger gateway_ok "Session 1" reply42
      "JObj [(''id'', JNum 42)]" "JNum 42" "[]"]
  by (simp add: Let_def fresh_handle_fields gateway_ok_def reply42_def)

text \<open>
  C2. When the \<^verbatim>\<open>Session.send\<close> call made by \<^verbatim>\<open>attach(session)\<close> rejects, attach
  rejects with the same error and the handle stays unattached: \<open>attached\<close> is still
  false and \<open>id\<close> still null, \<^verbatim>\<open>onAttached\<close> is not called and \<^verbatim>\<open>'attached'\<close> is
  not emitted.
\<close>

theorem attach_failure:
  assumes "attached this = False" and "id_prop this = JNull" and "logger this = Some lg"
    and "net s (JObj [(''janus'', JStr ''attach''), (''plugin'', JStr (name this))]) = Rejected e"
  shows "(let res = attach net (Some s) this tr in
           outcome_of res = Rejected e
         \<and> attached (handle_of res) = False
         \<and> id_prop (handle_of res) = JNull
         \<and> trace_of res =
             tr @ [Debug lg ''attach()'',
                   SessionSend s (JObj [(''janus'', JStr ''attach''), (''plugin'', JStr (name this))])]
         \<and> count_list (trace_of res) (Emit ''attached'') = count_list tr (Emit ''attached'')
         \<and> count_list (trace_of res) (Debug lg ''onAttached() abstract method called'') =
             count_list tr (Debug lg ''onAttached() abstract method called''))"
  using assms
  by (simp add: attach_rejected [where lg = lg and net = net and s = s and e = e])

theorem attach_failure_witness:
  "(let res = attach gateway_err (Some (Session 1)) fresh_handle [] in
      outcome_of res = Rejected (Rejection error_reply)
    \<and> attached (handle_of res) = False
    \<and> id_prop (handle_of res) = JNull
    \<and> trace_of res =
        [Debug DefaultLogger ''attach()'',
         SessionSend (Session 1) (JObj [(''janus'', JStr ''attach''), (''plugin'', JStr ''unset'')])]
    \<and> count_list (trace_of res) (Emit ''attached'') = 0
    \<and> count_list (trace_of res) (Debug DefaultLogger ''onAttached() abstract method called'') = 0)"
  using attach_failure [of fresh_handle DefaultLogger gateway_err "Session 1"
      "Rejection error_reply" "[]"]
  by (simp add: fresh_handle_fields gateway_err_def)



section \<open>Detaching\<close>

text \<open>
  C4. Whatever reply \<open>r\<close> \<^verbatim>\<open>Session.send\<close> resolves the detach request with,
  \<^verbatim>\<open>detach()\<close> sets \<open>attached\<close> to false, calls \<^verbatim>\<open>onDetached\<close> (seen by its debug
  line) and emits \<^verbatim>\<open>'detached'\<close> exactly once.
\<close>

theorem detach_completes:
  assumes "logger this = Some lg" and "session this = Some s"
    and "net s (JObj [(''janus'', JStr ''detach''), (''handle_id'', id_prop this)]) = Resolved r"
  shows "(let res = detach net this tr in
           outcome_of res = Resolved JUndefined
         \<and> attached (handle_of res) = False
         \<and> trace_of res =
             tr @ [Debug lg ''detach()'', Debug lg ''send()'',
                   SessionSend s (JObj [(''janus'', JStr ''detach''), (''handle_id'', id_prop this)]),
                   Debug lg ''onDetached() abstract method called'',
                   Emit ''detached'']
         \<and> count_list (trace_of res) (Emit ''detached'') = count_list tr (Emit ''detached'') + 1)"
  using assms
  by (simp add: detach_resolved [where lg = lg and net = net and s = s and r = r])

theorem detach_completes_witness:
  "(let res = detach gateway_ok attached_handle [] in
      outcome_of res = Resolved JUndefined
    \<and> attached (handle_of res) = False
    \<and> trace_of res =
        [Debug DefaultLogger ''detach()'', Debug DefaultLogger ''send()'',
         SessionSend (Session 1) (JObj [(''janus'', JStr ''detach''), (''handle_id'', JNum 42)]),
         Debug DefaultLogger ''onDetached() abstract method called'',
         Emit ''detached'']
    \<and> count_list (trace_of res) (Emit ''detached'') = 1)"
  using detach_completes [of attached_handle DefaultLogger "Session 1" gateway_ok reply42 "[]"]
  by (simp add: attached_handle_fields gateway_ok_def)

text \<open>
  C10. \<^verbatim>\<open>detach()\<close> does not reset \<open>id\<close>: after a completed detach the handle has
  \<open>attached\<close> false and the id it had before, not the initial \<^verbatim>\<open>null\<close>.
\<close>

theorem detach_keeps_id:
  assumes "logger this = Some lg" and "session this = Some s"
    and "net s (JObj [(''janus'', JStr ''detach''), (''handle_id'', id_prop this)]) = Resolved r"
  shows "(let res = detach net this tr in
           outcome_of res = Resolved JUndefined
         \<and> handle_of res = this\<lparr>attached := False\<rparr>
         \<and> attached (handle_of res) = False
         \<and> id_prop (handle_of res) = id_prop this)"
  using assms
  by (simp add: detach_resolved [where lg = lg and net = net and s = s and r = r])

theorem detach_keeps_id_witness:
  "(let res = detach gateway_ok attached_handle [] in
      outcome_of res = Resolved JUndefined
    \<and> attached (handle_of res) = False
    \<and> id_prop (handle_of res) = JNum 42
    \<and> id_prop (handle_of res) \<noteq> id_prop properties)"
  using detach_keeps_id [of attached_handle DefaultLogger "Session 1" gateway_ok reply42 "[]"]
  by (simp add: Let_def attached_handle_fields gateway_ok_def properties_def)

section \<open>Sending\<close>

text \<open>
  C5. For every object \<open>obj\<close>, \<^verbatim>\<open>Handle.send(obj)\<close> hands \<^verbatim>\<open>Session.send\<close> one
  message, \<open>obj\<close> with the property \<^verbatim>\<open>handle_id\<close> set to this handle's id and every
  other property as in \<open>obj\<close>, and returns the result of \<^verbatim>\<open>Session.send\<close> unchanged.
\<close>

theorem send_stamps_handle_id:
  assumes "logger this = Some lg" and "session this = Some s"
  shows "(let res = send net (JObj kvs) this tr;
              msg = set_prop ''handle_id'' (id_prop this) kvs in
           session_sends (trace_of res) = session_sends tr @ [(s, JObj msg)]
         \<and> map_of msg = (map_of kvs)(''handle_id'' \<mapsto> id_prop this)
         \<and> outcome_of res = net s (JObj msg)
         \<and> handle_of res = this)"
  using assms
  by (simp add: send_passes [where lg = lg and s = s] session_sends_append map_of_set_prop)

theorem send_stamps_handle_id_witness:
  "(let res = send gateway_ok (JObj [(''janus'', JStr ''hangup'')]) attached_handle [] in
      session_sends (trace_of res) =
        [(Session 1, JObj [(''janus'', JStr ''hangup''), (''handle_id'', JNum 42)])]
    \<and> outcome_of res = Resolved reply42
    \<and> handle_of res = attached_handle)"
  using send_stamps_handle_id [of attached_handle DefaultLogger "Session 1" gateway_ok
      "[(''janus'', JStr ''hangup'')]" "[]"]
  by (simp add: Let_def attached_handle_fields gateway_ok_def)

text \<open>
  C6, as stated, fails: the source tests \<^verbatim>\<open>if (jsep)\<close>, so a \<open>jsep\<close> argument that is
  passed but falsy (\<^verbatim>\<open>null\<close>, \<^verbatim>\<open>false\<close>, the empty string) is not carried by the
  message.
\<close>

theorem sendMessage_drops_falsy_jsep:
  "session_sends (trace_of (sendMessage gateway_ok (JObj []) JNull plugin_handle [])) =
     [(Session 1, JObj [(''janus'', JStr ''message''), (''body'', JObj []),
                        (''handle_id'', JNum 42)])]
   \<and> session_sends (trace_of (sendMessage gateway_ok (JObj []) (JBool False) plugin_handle [])) =
     [(Session 1, JObj [(''janus'', JStr ''message''), (''body'', JObj []),
                        (''handle_id'', JNum 42)])]
   \<and> session_sends (trace_of (sendMessage gateway_ok (JObj []) (JStr []) plugin_handle [])) =
     [(Session 1, JObj [(''janus'', JStr ''message''), (''body'', JObj []),
                        (''handle_id'', JNum 42)])]"
  by (simp add: sendMessage_passes [where l = "InjectedLogger 0" and lg = DefaultLogger
        and s = "Session 1"] plugin_handle_fields)

text \<open>
  C6, amended. On a handle whose \<^verbatim>\<open>log\<close> and \<^verbatim>\<open>logger\<close> properties are loggers and
  whose session is set, \<^verbatim>\<open>sendMessage(body, jsep)\<close> sends through \<^verbatim>\<open>Handle.send\<close> the
  message \<^verbatim>\<open>{janus: 'message', body}\<close> (with \<^verbatim>\<open>{}\<close> for an undefined body), which
  carries a \<^verbatim>\<open>jsep\<close> property exactly when the \<open>jsep\<close> argument is truthy, and
  returns the result of \<^verbatim>\<open>Session.send\<close>.
\<close>

theorem sendMessage_sends_message:
  assumes "log_prop this = Some l" and "logger this = Some lg" and "session this = Some s"
  shows "(let res = sendMessage net body jsep this tr;
              msg = JObj ([(''janus'', JStr ''message''),
                           (''body'', if body = JUndefined then JObj [] else body)]
                          @ (if truthy jsep then [(''jsep'', jsep)] else [])
                          @ [(''handle_id'', id_prop this)]) in
           session_sends (trace_of res) = session_sends tr @ [(s, msg)]
         \<and> trace_of res =
             tr @ [Debug l ''sendMessage()'', Debug lg ''send()'', SessionSend s msg]
         \<and> outcome_of res = net s msg
         \<and> handle_of res = this)"
  using assms
  by (simp add: Let_def sendMessage_passes [where l = l and lg = lg and s = s]
      session_sends_append)

theorem sendMessage_sends_message_witness:
  "(let res = sendMessage gateway_ok (JObj [(''audio'', JBool True)]) offer plugin_handle [];
        msg = JObj [(''janus'', JStr ''message''), (''body'', JObj [(''audio'', JBool True)]),
                    (''jsep'', offer), (''handle_id'', JNum 42)] in
      session_sends (trace_of res) = [(Session 1, msg)]
    \<and> trace_of res =
        [Debug (InjectedLogger 0) ''sendMessage()'', Debug DefaultLogger ''send()'',
         SessionSend (Session 1) msg]
    \<and> outcome_of res = Resolved reply42
    \<and> handle_of res = plugin_handle)"
  using sendMessage_sends_message [of plugin_handle "InjectedLogger 0" DefaultLogger "Session 1"
      gateway_ok "JObj [(''audio'', JBool True)]" offer "[]"]
  by (simp add: Let_def plugin_handle_fields gateway_ok_def offer_def)

text \<open>
  C7. For every \<open>jsep\<close>, on every handle, \<^verbatim>\<open>sendJsep(jsep)\<close> and
  \<^verbatim>\<open>sendMessage({}, jsep)\<close> settle the same way, leave the handle the same, and hand
  the same messages to \<^verbatim>\<open>Session.send\<close>.
\<close>

theorem sendJsep_same_as_sendMessage:
  "outcome_of (sendJsep net jsep this tr) = outcome_of (sendMessage net (JObj []) jsep this tr)
   \<and> handle_of (sendJsep net jsep this tr) = handle_of (sendMessage net (JObj []) jsep this tr)
   \<and> session_sends (trace_of (sendJsep net jsep this tr)) =
       session_sends (trace_of (sendMessage net (JObj []) jsep this tr))"
proof (cases "log_prop this")
  case None
  then show ?thesis
    by (simp add: sendJsep_without_log sendMessage_without_log)
next
  case (Some l)
  have "sendMessage net (JObj []) jsep this (tr @ [Debug l ''sendJsep()'']) =
          (outcome_of (sendMessage net (JObj []) jsep this []),
           handle_of (sendMessage net (JObj []) jsep this []),
           (tr @ [Debug l ''sendJsep()'']) @ trace_of (sendMessage net (JObj []) jsep this []))"
    by (rule sendMessage_trace_prefix)
  moreover have "sendMessage net (JObj []) jsep this tr =
          (outcome_of (sendMessage net (JObj []) jsep this []),
           handle_of (sendMessage net (JObj []) jsep this []),
           tr @ trace_of (sendMessage net (JObj []) jsep this []))"
    by (rule sendMessage_trace_prefix)
  ultimately show ?thesis
    by (simp add: sendJsep_with_log [OF Some] session_sends_append)
qed

theorem sendJsep_same_as_sendMessage_witness:
  "outcome_of (sendJsep gateway_ok offer plugin_handle []) = Resolved reply42
   \<and> outcome_of (sendMessage gateway_ok (JObj []) offer plugin_handle []) = Resolved reply42
   \<and> handle_of (sendJsep gateway_ok offer plugin_handle []) = plugin_handle
   \<and> handle_of (sendMessage gateway_ok (JObj []) offer plugin_handle []) = plugin_handle
   \<and> session_sends (trace_of (sendJsep gateway_ok offer plugin_handle [])) =
       [(Session 1, JObj [(''janus'', JStr ''message''), (''body'', JObj []), (''jsep'', offer),
                          (''handle_id'', JNum 42)])]
   \<and> session_sends (trace_of (sendMessage gateway_ok (JObj []) offer plugin_handle [])) =
       [(Session 1, JObj [(''janus'', JStr ''message''), (''body'', JObj []), (''jsep'', offer),
                          (''handle_id'', JNum 42)])]"
  using sendJsep_same_as_sendMessage [of gateway_ok offer plugin_handle "[]"]
  by (simp add: sendMessage_passes [where l = "InjectedLogger 0" and lg = DefaultLogger
        and s = "Session 1"] plugin_handle_fields gateway_ok_def offer_def)

section \<open>Attachment state is not checked\<close>

text \<open>
  C3, as stated, fails: no method looks at \<open>attached\<close>. \<^verbatim>\<open>attach\<close> on an attached
  handle sends a second attach request and resolves; \<^verbatim>\<open>send\<close> on the unattached handle
  that a rejected attach leaves behind sends the message, stamped with the id
  \<^verbatim>\<open>null\<close>.
\<close>

theorem no_attached_check_counterexample:
  "attached attached_handle = True
   \<and> outcome_of (attach gateway_ok (Some (Session 2)) attached_handle []) = Resolved reply42
   \<and> session_sends (trace_of (attach gateway_ok (Some (Session 2)) attached_handle [])) =
       [(Session 2, JObj [(''janus'', JStr ''attach''), (''plugin'', JStr ''unset'')])]
   \<and> attached failed_attach_handle = False
   \<and> outcome_of (send gateway_ok (JObj [(''janus'', JStr ''hangup'')]) failed_attach_handle []) =
       Resolved reply42
   \<and> session_sends
        (trace_of (send gateway_ok (JObj [(''janus'', JStr ''hangup'')]) failed_attach_handle [])) =
       [(Session 1, JObj [(''janus'', JStr ''hangup''), (''handle_id'', JNull)])]"
  by (simp add: attached_handle_fields failed_attach_handle_eq fresh_handle_fields
      attach_resolved [where lg = DefaultLogger and d = "JObj [(''id'', JNum 42)]" and r = reply42]
      send_passes [where lg = DefaultLogger and s = "Session 1"] gateway_ok_def reply42_def)

text \<open>
  C3, amended. The handle checks no attachment state: what \<^verbatim>\<open>attach\<close>, \<^verbatim>\<open>send\<close>,
  \<^verbatim>\<open>sendMessage\<close>, \<^verbatim>\<open>sendJsep\<close>, \<^verbatim>\<open>sendTrickle\<close> and \<^verbatim>\<open>hangup\<close> return and
  what they do to their collaborators is the same whatever the value of \<open>attached\<close>. On
  a handle with a logger, \<^verbatim>\<open>attach(session)\<close> hands the attach request to
  \<^verbatim>\<open>session.send\<close>. On a handle with a logger and a session back-reference,
  \<^verbatim>\<open>send(obj)\<close> hands the stamped message to \<^verbatim>\<open>Session.send\<close> and returns its result,
  and so do \<^verbatim>\<open>sendMessage\<close>, \<^verbatim>\<open>sendJsep\<close>, \<^verbatim>\<open>sendTrickle\<close> and \<^verbatim>\<open>hangup\<close> when
  \<^verbatim>\<open>this.log\<close> is a logger too. On a handle whose session back-reference is
  \<^verbatim>\<open>null\<close> (one never passed to \<^verbatim>\<open>attach\<close>), these five sending operations hand
  nothing to \<^verbatim>\<open>Session.send\<close> and reject their promise with a \<^verbatim>\<open>TypeError\<close>.
\<close>

theorem no_attached_check:
  "(outcome_of (attach net sess (this\<lparr>attached := b\<rparr>) tr) = outcome_of (attach net sess this tr)
    \<and> trace_of (attach net sess (this\<lparr>attached := b\<rparr>) tr) = trace_of (attach net sess this tr)
    \<and> outcome_of (send net obj (this\<lparr>attached := b\<rparr>) tr) = outcome_of (send net obj this tr)
    \<and> trace_of (send net obj (this\<lparr>attached := b\<rparr>) tr) = trace_of (send net obj this tr)
    \<and> outcome_of (sendMessage net body jsep (this\<lparr>attached := b\<rparr>) tr) =
        outcome_of (sendMessage net body jsep this tr)
    \<and> trace_of (sendMessage net body jsep (this\<lparr>attached := b\<rparr>) tr) =
        trace_of (sendMessage net body jsep this tr)
    \<and> outcome_of (sendJsep net jsep (this\<lparr>attached := b\<rparr>) tr) =
        outcome_of (sendJsep net jsep this tr)
    \<and> trace_of (sendJsep net jsep (this\<lparr>attached := b\<rparr>) tr) =
        trace_of (sendJsep net jsep this tr)
    \<and> outcome_of (sendTrickle net candidate (this\<lparr>attached := b\<rparr>) tr) =
        outcome_of (sendTrickle net candidate this tr)
    \<and> trace_of (sendTrickle net candidate (this\<lparr>attached := b\<rparr>) tr) =
        trace_of (sendTrickle net candidate this tr)
    \<and> outcome_of (hangup net (this\<lparr>attached := b\<rparr>) tr) = outcome_of (hangup net this tr)
    \<and> trace_of (hangup net (this\<lparr>attached := b\<rparr>) tr) = trace_of (hangup net this tr))
   \<and> (logger this = Some lg \<longrightarrow>
        session_sends (trace_of (attach net (Some s) this tr)) =
          session_sends tr @
            [(s, JObj [(''janus'', JStr ''attach''), (''plugin'', JStr (name this))])])
   \<and> (logger this = Some lg \<and> session this = Some s \<longrightarrow>
        session_sends (trace_of (send net obj this tr)) =
          session_sends tr @
            [(s, JObj (set_prop ''handle_id'' (id_prop this) (own_props obj)))]
      \<and> outcome_of (send net obj this tr) =
          net s (JObj (set_prop ''handle_id'' (id_prop this) (own_props obj))))
   \<and> (logger this = Some lg \<and> session this = Some s \<and> log_prop this = Some l \<longrightarrow>
        session_sends (trace_of (sendMessage net body jsep this tr)) =
          session_sends tr @
            [(s, JObj ([(''janus'', JStr ''message''),
                        (''body'', if body = JUndefined then JObj [] else body)]
                       @ (if truthy jsep then [(''jsep'', jsep)] else [])
                       @ [(''handle_id'', id_prop this)]))]
      \<and> outcome_of (sendMessage net body jsep this tr) =
          net s (JObj ([(''janus'', JStr ''message''),
                        (''body'', if body = JUndefined then JObj [] else body)]
                       @ (if truthy jsep then [(''jsep'', jsep)] else [])
                       @ [(''handle_id'', id_prop this)]))
      \<and> session_sends (trace_of (sendJsep net jsep this tr)) =
          session_sends tr @
            [(s, JObj ([(''janus'', JStr ''message''), (''body'', JObj [])]
                       @ (if truthy jsep then [(''jsep'', jsep)] else [])
                       @ [(''handle_id'', id_prop this)]))]
      \<and> outcome_of (sendJsep net jsep this tr) =
          net s (JObj ([(''janus'', JStr ''message''), (''body'', JObj [])]
                       @ (if truthy jsep then [(''jsep'', jsep)] else [])
                       @ [(''handle_id'', id_prop this)]))
      \<and> session_sends (trace_of (sendTrickle net candidate this tr)) =
          session_sends tr @
            [(s, JObj [(''janus'', JStr ''trickle''), (''candidate'', candidate),
                       (''handle_id'', id_prop this)])]
      \<and> outcome_of (sendTrickle net candidate this tr) =
          net s (JObj [(''janus'', JStr ''trickle''), (''candidate'', candidate),
                       (''handle_id'', id_prop this)])
      \<and> session_sends (trace_of (hangup net this tr)) =
          session_sends tr @
            [(s, JObj [(''janus'', JStr ''hangup''), (''handle_id'', id_prop this)])]
      \<and> outcome_of (hangup net this tr) =
          net s (JObj [(''janus'', JStr ''hangup''), (''handle_id'', id_prop this)]))
   \<and> (session this = None \<longrightarrow>
        outcome_of (send net obj this tr) = Rejected TypeError
      \<and> session_sends (trace_of (send net obj this tr)) = session_sends tr
      \<and> outcome_of (sendMessage net body jsep this tr) = Rejected TypeError
      \<and> session_sends (trace_of (sendMessage net body jsep this tr)) = session_sends tr
      \<and> outcome_of (sendJsep net jsep this tr) = Rejected TypeError
      \<and> session_sends (trace_of (sendJsep net jsep this tr)) = session_sends tr
      \<and> outcome_of (sendTrickle net candidate this tr) = Rejected TypeError
      \<and> session_sends (trace_of (sendTrickle net candidate this tr)) = session_sends tr
      \<and> outcome_of (hangup net this tr) = Rejected TypeError
      \<and> session_sends (trace_of (hangup net this tr)) = session_sends tr)"
proof -
  have independent:
    "outcome_of (attach net sess (this\<lparr>attached := b\<rparr>) tr) = outcome_of (attach net sess this tr)
    \<and> trace_of (attach net sess (this\<lparr>attached := b\<rparr>) tr) = trace_of (attach net sess this tr)
    \<and> outcome_of (send net obj (this\<lparr>attached := b\<rparr>) tr) = outcome_of (send net obj this tr)
    \<and> trace_of (send net obj (this\<lparr>attached := b\<rparr>) tr) = trace_of (send net obj this tr)
    \<and> outcome_of (sendMessage net body jsep (this\<lparr>attached := b\<rparr>) tr) =
        outcome_of (sendMessage net body jsep this tr)
    \<and> trace_of (sendMessage net body jsep (this\<lparr>attached := b\<rparr>) tr) =
        trace_of (sendMessage net body jsep this tr)
    \<and> outcome_of (sendJsep net jsep (this\<lparr>attached := b\<rparr>) tr) =
        outcome_of (sendJsep net jsep this tr)
    \<and> trace_of (sendJsep net jsep (this\<lparr>attached := b\<rparr>) tr) =
        trace_of (sendJsep net jsep this tr)
    \<and> outcome_of (sendTrickle net candidate (this\<lparr>attached := b\<rparr>) tr) =
        outcome_of (sendTrickle net candidate this tr)
    \<and> trace_of (sendTrickle net candidate (this\<lparr>attached := b\<rparr>) tr) =
        trace_of (sendTrickle net candidate this tr)
    \<and> outcome_of (hangup net (this\<lparr>attached := b\<rparr>) tr) = outcome_of (hangup net this tr)
    \<and> trace_of (hangup net (this\<lparr>attached := b\<rparr>) tr) = trace_of (hangup net this tr)"
    by (intro conjI attached_irrelevant)
  have attaches: "logger this = Some lg \<longrightarrow>
        session_sends (trace_of (attach net (Some s) this tr)) =
          session_sends tr @
            [(s, JObj [(''janus'', JStr ''attach''), (''plugin'', JStr (name this))])]"
    by (simp add: attach_def call_debug_def call_session_send_def onAttached_def emit_def
        session_sends_append Let_def split: outcome.splits sum.splits)
  have sends: "logger this = Some lg \<and> session this = Some s \<longrightarrow>
        session_sends (trace_of (send net obj this tr)) =
          session_sends tr @
            [(s, JObj (set_prop ''handle_id'' (id_prop this) (own_props obj)))]
      \<and> outcome_of (send net obj this tr) =
          net s (JObj (set_prop ''handle_id'' (id_prop this) (own_props obj)))"
    by (simp add: send_passes [where lg = lg and s = s] session_sends_append)
  have helpers: "logger this = Some lg \<and> session this = Some s \<and> log_prop this = Some l \<longrightarrow>
        session_sends (trace_of (sendMessage net body jsep this tr)) =
          session_sends tr @
            [(s, JObj ([(''janus'', JStr ''message''),
                        (''body'', if body = JUndefined then JObj [] else body)]
                       @ (if truthy jsep then [(''jsep'', jsep)] else [])
                       @ [(''handle_id'', id_prop this)]))]
      \<and> outcome_of (sendMessage net body jsep this tr) =
          net s (JObj ([(''janus'', JStr ''message''),
                        (''body'', if body = JUndefined then JObj [] else body)]
                       @ (if truthy jsep then [(''jsep'', jsep)] else [])
                       @ [(''handle_id'', id_prop this)]))
      \<and> session_sends (trace_of (sendJsep net jsep this tr)) =
          session_sends tr @
            [(s, JObj ([(''janus'', JStr ''message''), (''body'', JObj [])]
                       @ (if truthy jsep then [(''jsep'', jsep)] else [])
                       @ [(''handle_id'', id_prop this)]))]
      \<and> outcome_of (sendJsep net jsep this tr) =
          net s (JObj ([(''janus'', JStr ''message''), (''body'', JObj [])]
                       @ (if truthy jsep then [(''jsep'', jsep)] else [])
                       @ [(''handle_id'', id_prop this)]))
      \<and> session_sends (trace_of (sendTrickle net candidate this tr)) =
          session_sends tr @
            [(s, JObj [(''janus'', JStr ''trickle''), (''candidate'', candidate),
                       (''handle_id'', id_prop this)])]
      \<and> outcome_of (sendTrickle net candidate this tr) =
          net s (JObj [(''janus'', JStr ''trickle''), (''candidate'', candidate),
                       (''handle_id'', id_prop this)])
      \<and> session_sends (trace_of (hangup net this tr)) =
          session_sends tr @
            [(s, JObj [(''janus'', JStr ''hangup''), (''handle_id'', id_prop this)])]
      \<and> outcome_of (hangup net this tr) =
          net s (JObj [(''janus'', JStr ''hangup''), (''handle_id'', id_prop this)])"
    by (simp add: sendJsep_with_log [where l = l]
        sendMessage_passes [where l = l and lg = lg and s = s]
        sendTrickle_passes [where l = l and lg = lg and s = s]
        hangup_passes [where l = l and lg = lg and s = s] session_sends_append)
  have no_session: "session this = None \<longrightarrow>
        outcome_of (send net obj this tr) = Rejected TypeError
      \<and> session_sends (trace_of (send net obj this tr)) = session_sends tr
      \<and> outcome_of (sendMessage net body jsep this tr) = Rejected TypeError
      \<and> session_sends (trace_of (sendMessage net body jsep this tr)) = session_sends tr
      \<and> outcome_of (sendJsep net jsep this tr) = Rejected TypeError
      \<and> session_sends (trace_of (sendJsep net jsep this tr)) = session_sends tr
      \<and> outcome_of (sendTrickle net candidate this tr) = Rejected TypeError
      \<and> session_sends (trace_of (sendTrickle net candidate this tr)) = session_sends tr
      \<and> outcome_of (hangup net this tr) = Rejected TypeError
      \<and> session_sends (trace_of (hangup net this tr)) = session_sends tr"
    by (simp add: send_without_session helpers_without_session)
  show ?thesis
    by (rule conjI [OF independent conjI [OF attaches conjI [OF sends conjI [OF helpers no_session]]]])
qed

theorem no_attached_check_witness:
  "outcome_of (attach gateway_ok (Some (Session 2)) (attached_handle\<lparr>attached := False\<rparr>) []) =
     outcome_of (attach gateway_ok (Some (Session 2)) attached_handle [])
   \<and> trace_of (attach gateway_ok (Some (Session 2)) (attached_handle\<lparr>attached := False\<rparr>) []) =
     trace_of (attach gateway_ok (Some (Session 2)) attached_handle [])
   \<and> session_sends (trace_of (attach gateway_ok (Some (Session 2)) attached_handle [])) =
     [(Session 2, JObj [(''janus'', JStr ''attach''), (''plugin'', JStr ''unset'')])]
   \<and> session_sends
        (trace_of (send gateway_ok (JObj [(''janus'', JStr ''hangup'')]) failed_attach_handle [])) =
       [(Session 1, JObj [(''janus'', JStr ''hangup''), (''handle_id'', JNull)])]
   \<and> outcome_of (send gateway_ok (JObj [(''janus'', JStr ''hangup'')]) failed_attach_handle []) =
       Resolved reply42
   \<and> session_sends (trace_of (hangup gateway_ok (plugin_handle\<lparr>attached := False\<rparr>) [])) =
       [(Session 1, JObj [(''janus'', JStr ''hangup''), (''handle_id'', JNum 42)])]
   \<and> outcome_of (hangup gateway_ok (plugin_handle\<lparr>attached := False\<rparr>) []) = Resolved reply42
   \<and> session_sends (trace_of (sendTrickle gateway_ok JNull (plugin_handle\<lparr>attached := False\<rparr>) [])) =
       [(Session 1, JObj [(''janus'', JStr ''trickle''), (''candidate'', JNull),
                          (''handle_id'', JNum 42)])]
   \<and> outcome_of (sendTrickle gateway_ok JNull (plugin_handle\<lparr>attached := False\<rparr>) []) =
       Resolved reply42
   \<and> outcome_of (send gateway_ok (JObj [(''janus'', JStr ''hangup'')]) fresh_handle []) =
       Rejected TypeError
   \<and> session_sends (trace_of (send gateway_ok (JObj [(''janus'', JStr ''hangup'')]) fresh_handle [])) = []
   \<and> outcome_of (hangup gateway_ok fresh_handle []) = Rejected TypeError
   \<and> session_sends (trace_of (hangup gateway_ok fresh_handle [])) = []"
  using
    no_attached_check [where net = gateway_ok and sess = "Some (Session 2)"
      and this = attached_handle and b = False and tr = "[]" and lg = DefaultLogger
      and s = "Session 2"]
    no_attached_check [where net = gateway_ok and this = failed_attach_handle and tr = "[]"
      and obj = "JObj [(''janus'', JStr ''hangup'')]" and lg = DefaultLogger and s = "Session 1"]
    no_attached_check [where net = gateway_ok and this = "plugin_handle\<lparr>attached := False\<rparr>"
      and tr = "[]" and candidate = JNull and lg = DefaultLogger and s = "Session 1"
      and l = "InjectedLogger 0"]
    no_attached_check [where net = gateway_ok and this = fresh_handle and tr = "[]"
      and obj = "JObj [(''janus'', JStr ''hangup'')]"]
  by (simp add: attached_handle_fields failed_attach_handle_eq plugin_handle_fields
      fresh_handle_fields gateway_ok_def)

section \<open>Receiving\<close>

text \<open>
  C8. The base \<^verbatim>\<open>receive(msg)\<close> is meant to be a logging stub that completes for every
  message. On a handle constructed by \<^verbatim>\<open>init\<close> it does not: \<^verbatim>\<open>init\<close> assigns
  \<^verbatim>\<open>this.logger\<close>, \<^verbatim>\<open>receive\<close> reads \<^verbatim>\<open>this.log\<close>, which is undefined, and the
  promise rejects with a \<^verbatim>\<open>TypeError\<close> for every message. The handle is left
  unchanged.
\<close>

theorem receive_rejects_after_init:
  "receive to_string msg (init lg properties) tr = (Rejected TypeError, init lg properties, tr)"
  by (simp add: receive_def init_def properties_def)

end
